theory Spec2Isabelle
  imports Main "HOL-Library.Word"
begin

unbundle bit_operations_syntax

section \<open>The tracing interface the package programs against\<close>

text \<open>
  The package \<^verbatim>\<open>otel\<close> never looks inside a span: it calls the methods of the
  interface \<^verbatim>\<open>trace.Span\<close> (\<^verbatim>\<open>SetStatus\<close>, \<^verbatim>\<open>SetAttributes\<close>,
  \<^verbatim>\<open>RecordError\<close>, \<^verbatim>\<open>End\<close>) and \<^verbatim>\<open>tracer.Start\<close>. A span is a reference
  shared between the middleware, the handlers and the data-access wrapper, so the model
  threads one log of these calls through every function: a span is its identifier, and
  each call appends one event.
\<close>

type_synonym span_id = nat

text \<open>\<^verbatim>\<open>codes.Code\<close>: \<^verbatim>\<open>Unset = 0\<close>, \<^verbatim>\<open>Error = 1\<close>, \<^verbatim>\<open>Ok = 2\<close>.\<close>

datatype code = codes_Unset | codes_Error | codes_Ok

text \<open>
  A Go \<^verbatim>\<open>error\<close> value that is not nil; \<^verbatim>\<open>Error_string\<close> is its method
  \<^verbatim>\<open>Error()\<close>. A possibly nil error is an \<open>error option\<close>.
\<close>

datatype error = errorString (Error_string: string)

text \<open>
  \<^verbatim>\<open>attribute.Value\<close> with the three types the package uses. \<^verbatim>\<open>attribute.Int\<close>
  stores an \<^verbatim>\<open>int64\<close>; no arithmetic is done on the numbers, so they are \<open>int\<close>.
  A \<^verbatim>\<open>float64\<close> is its IEEE-754 bit pattern, the zero value being the pattern 0.
\<close>

datatype Value = STRING string | INT64 int | FLOAT64 "64 word"

type_synonym KeyValue = "string \<times> Value"

definition attribute_String :: "string \<Rightarrow> string \<Rightarrow> KeyValue" where
  "attribute_String k v = (k, STRING v)"

definition attribute_Int :: "string \<Rightarrow> int \<Rightarrow> KeyValue" where
  "attribute_Int k v = (k, INT64 v)"

definition attribute_Int64 :: "string \<Rightarrow> int \<Rightarrow> KeyValue" where
  "attribute_Int64 k v = (k, INT64 v)"

definition attribute_Float64 :: "string \<Rightarrow> 64 word \<Rightarrow> KeyValue" where
  "attribute_Float64 k v = (k, FLOAT64 v)"

text \<open>
  The part of a \<^verbatim>\<open>context.Context\<close> the package depends on: the span it carries
  (none, one decoded from the propagation headers of a request, or a span of this process).
\<close>

datatype "context" = NoSpan | RemoteSpan string | LocalSpan span_id

text \<open>
  One event per call: \<open>Start sp tracer name parent attrs\<close> for \<^verbatim>\<open>tracer.Start\<close> with
  the start options' attributes, the others for the methods of the span \<open>sp\<close>.
\<close>

datatype event =
    Start span_id string string "context" "KeyValue list"
  | SetStatus span_id code string
  | SetAttributes span_id "KeyValue list"
  | RecordError span_id error
  | End span_id

type_synonym trace_log = "event list"

fun is_Start :: "event \<Rightarrow> bool" where
  "is_Start (Start sp tr n p kvs) = True"
| "is_Start e = False"

text \<open>A new span gets the next unused identifier: the number of spans started so far.\<close>

definition new_span_id :: "trace_log \<Rightarrow> span_id" where
  "new_span_id log = length (filter is_Start log)"

text \<open>
  \<^verbatim>\<open>ctx, span := tracer.Start(ctx, name, opts...)\<close>: the new span is a child of the
  span in \<open>ctx\<close>, and the returned context carries the new span.
\<close>

definition tracer_Start ::
  "string \<Rightarrow> context \<Rightarrow> string \<Rightarrow> KeyValue list \<Rightarrow> trace_log \<Rightarrow> context \<times> span_id \<times> trace_log" where
  "tracer_Start tracer ctx name attrs log =
     (let sp = new_span_id log
      in (LocalSpan sp, sp, log @ [Start sp tracer name ctx attrs]))"

subsection \<open>What a log says about one span\<close>

text \<open>The \<^verbatim>\<open>SetStatus\<close> calls made on a span, in order, as (code, description).\<close>

fun set_status_calls :: "span_id \<Rightarrow> trace_log \<Rightarrow> (code \<times> string) list" where
  "set_status_calls sp [] = []"
| "set_status_calls sp (SetStatus i c d # es) =
     (if i = sp then (c, d) # set_status_calls sp es else set_status_calls sp es)"
| "set_status_calls sp (e # es) = set_status_calls sp es"

text \<open>The attributes committed to a span by \<^verbatim>\<open>SetAttributes\<close> calls, in order.\<close>

fun set_attributes_calls :: "span_id \<Rightarrow> trace_log \<Rightarrow> KeyValue list" where
  "set_attributes_calls sp [] = []"
| "set_attributes_calls sp (SetAttributes i kvs # es) =
     (if i = sp then kvs @ set_attributes_calls sp es else set_attributes_calls sp es)"
| "set_attributes_calls sp (e # es) = set_attributes_calls sp es"

text \<open>The values committed to a span under one key, in order.\<close>

definition attribute_values :: "string \<Rightarrow> span_id \<Rightarrow> trace_log \<Rightarrow> Value list" where
  "attribute_values k sp log = map snd (filter (\<lambda>kv. fst kv = k) (set_attributes_calls sp log))"

text \<open>The errors passed to \<^verbatim>\<open>RecordError\<close> on a span, and the number of \<^verbatim>\<open>End\<close> calls.\<close>

fun record_error_calls :: "span_id \<Rightarrow> trace_log \<Rightarrow> error list" where
  "record_error_calls sp [] = []"
| "record_error_calls sp (RecordError i e # es) =
     (if i = sp then e # record_error_calls sp es else record_error_calls sp es)"
| "record_error_calls sp (e # es) = record_error_calls sp es"

fun end_calls :: "span_id \<Rightarrow> trace_log \<Rightarrow> nat" where
  "end_calls sp [] = 0"
| "end_calls sp (End i # es) = (if i = sp then Suc (end_calls sp es) else end_calls sp es)"
| "end_calls sp (e # es) = end_calls sp es"

text \<open>
  The state of a span as the interface \<^verbatim>\<open>trace.Span\<close> documents it:
  \<^verbatim>\<open>SetAttributes\<close> overwrites the value of a key that exists; \<^verbatim>\<open>SetStatus\<close> takes
  effect unless the status was set to a higher code before (Ok > Error > Unset), and keeps
  the description only for Error; no update is allowed after \<^verbatim>\<open>End\<close>.
\<close>

record span_state =
  st_attributes :: "string \<rightharpoonup> Value"
  st_status :: "code \<times> string"
  st_errors :: "error list"
  st_ended :: bool

definition new_span_state :: span_state where
  "new_span_state =
     \<lparr>st_attributes = Map.empty, st_status = (codes_Unset, []), st_errors = [], st_ended = False\<rparr>"

fun code_rank :: "code \<Rightarrow> nat" where
  "code_rank codes_Unset = 0"
| "code_rank codes_Error = 1"
| "code_rank codes_Ok = 2"

fun put_attributes :: "KeyValue list \<Rightarrow> (string \<rightharpoonup> Value) \<Rightarrow> (string \<rightharpoonup> Value)" where
  "put_attributes [] m = m"
| "put_attributes (kv # kvs) m = put_attributes kvs (m(fst kv \<mapsto> snd kv))"

definition put_status :: "code \<Rightarrow> string \<Rightarrow> code \<times> string \<Rightarrow> code \<times> string" where
  "put_status c d st =
     (if code_rank c < code_rank (fst st) then st
      else (c, if c = codes_Error then d else []))"

fun span_step :: "span_id \<Rightarrow> event \<Rightarrow> span_state \<Rightarrow> span_state" where
  "span_step sp (Start i tr n p kvs) s =
     (if i = sp \<and> \<not> st_ended s then s\<lparr>st_attributes := put_attributes kvs (st_attributes s)\<rparr> else s)"
| "span_step sp (SetStatus i c d) s =
     (if i = sp \<and> \<not> st_ended s then s\<lparr>st_status := put_status c d (st_status s)\<rparr> else s)"
| "span_step sp (SetAttributes i kvs) s =
     (if i = sp \<and> \<not> st_ended s then s\<lparr>st_attributes := put_attributes kvs (st_attributes s)\<rparr> else s)"
| "span_step sp (RecordError i e) s =
     (if i = sp \<and> \<not> st_ended s then s\<lparr>st_errors := st_errors s @ [e]\<rparr> else s)"
| "span_step sp (End i) s =
     (if i = sp then s\<lparr>st_ended := True\<rparr> else s)"

definition span_view :: "span_id \<Rightarrow> trace_log \<Rightarrow> span_state" where
  "span_view sp log = fold (span_step sp) log new_span_state"

section \<open>Configuration and carrier (model.go)\<close>

record Config =
  ServiceName :: string
  Endpoint :: string
  IsSecure :: bool
  BasicAuth :: string
  Environment :: string
  StreamName :: string

text \<open>\<^verbatim>\<open>trace.Tracer\<close> is the name it was obtained under (\<^verbatim>\<open>otel.Tracer(name)\<close>).\<close>

record TraceContext =
  Tracer :: string
  RequestCtx :: "context"

text \<open>
  How a call of a function value ends: it returns, or it panics. Deferred calls run in
  both cases.
\<close>

datatype 'a outcome = Returned 'a | Panicked string

section \<open>The enrichment record (otel/trace_data.go)\<close>

text \<open>
  \<^verbatim>\<open>time.Time\<close> by the two observations the package makes of it: \<^verbatim>\<open>t.IsZero()\<close>
  and \<^verbatim>\<open>t.Format(time.RFC3339)\<close>.
\<close>

record Time =
  IsZero :: bool
  Format_RFC3339 :: string

record TraceData =
  UserID :: string
  RequestID :: string
  ServiceName :: string
  Environment :: string
  Version :: string
  Region :: string
  Action :: string
  Resource :: string
  StatusCode :: int
  Error :: "error option"
  ClientIP :: string
  UserAgent :: string
  RequestSize :: int
  ResponseSize :: int
  Duration :: "64 word"
  StartTime :: Time
  EndTime :: Time

text \<open>The zero value of \<^verbatim>\<open>time.Time\<close> and of \<^verbatim>\<open>TraceData\<close> (\<^verbatim>\<open>TraceData{}\<close>).\<close>

definition zero_Time :: Time where
  "zero_Time = \<lparr>IsZero = True, Format_RFC3339 = ''0001-01-01T00:00:00Z''\<rparr>"

definition zero_TraceData :: TraceData where
  "zero_TraceData =
     \<lparr>UserID = [], RequestID = [], ServiceName = [], Environment = [], Version = [],
      Region = [], Action = [], Resource = [], StatusCode = 0, Error = None, ClientIP = [],
      UserAgent = [], RequestSize = 0, ResponseSize = 0, Duration = 0,
      StartTime = zero_Time, EndTime = zero_Time\<rparr>"

definition http_StatusOK :: int where
  "http_StatusOK = 200"

text \<open>
  Lines 37-65 of \<^verbatim>\<open>AddTraceAttributes\<close>: the slice \<^verbatim>\<open>attributes\<close> with its fourteen
  unconditional entries and the three conditional appends.
\<close>

definition trace_attributes :: "TraceData \<Rightarrow> KeyValue list" where
  "trace_attributes data =
     (let attributes =
        [attribute_String ''user.id'' (UserID data),
         attribute_String ''request.id'' (RequestID data),
         attribute_String ''service.name'' (ServiceName data),
         attribute_String ''environment'' (Environment data),
         attribute_String ''version'' (Version data),
         attribute_String ''region'' (Region data),
         attribute_String ''action'' (Action data),
         attribute_String ''resource'' (Resource data),
         attribute_Int ''status.code'' (StatusCode data),
         attribute_String ''client.ip'' (ClientIP data),
         attribute_String ''user.agent'' (UserAgent data),
         attribute_Int64 ''request.size'' (RequestSize data),
         attribute_Int64 ''response.size'' (ResponseSize data),
         attribute_Float64 ''duration.ms'' (Duration data)];
        attributes =
          (if \<not> IsZero (StartTime data)
           then attributes @ [attribute_String ''start_time'' (Format_RFC3339 (StartTime data))]
           else attributes);
        attributes =
          (if \<not> IsZero (EndTime data)
           then attributes @ [attribute_String ''end_time'' (Format_RFC3339 (EndTime data))]
           else attributes);
        attributes =
          (case Error data of
             Some err \<Rightarrow> attributes @ [attribute_String ''error.message'' (Error_string err)]
           | None \<Rightarrow> attributes)
      in attributes)"

text \<open>
  \<^verbatim>\<open>AddTraceAttributes(span, data)\<close>: the status classification of lines 67-77, then
  the single \<^verbatim>\<open>span.SetAttributes(attributes...)\<close>.
\<close>

definition AddTraceAttributes :: "span_id \<Rightarrow> TraceData \<Rightarrow> trace_log \<Rightarrow> trace_log" where
  "AddTraceAttributes span data log =
     (let log =
        (if StatusCode data \<noteq> 0 then
           (if StatusCode data = http_StatusOK then log @ [SetStatus span codes_Ok ''Success'']
            else (case Error data of
                    Some err \<Rightarrow> log @ [SetStatus span codes_Error (Error_string err)]
                  | None \<Rightarrow> log @ [SetStatus span codes_Error ''Unknown error'']))
         else log)
      in log @ [SetAttributes span (trace_attributes data)])"

text \<open>\<^verbatim>\<open>NewTraceData()\<close>; \<open>now\<close> is the value of \<^verbatim>\<open>time.Now()\<close>.\<close>

definition NewTraceData :: "Time \<Rightarrow> TraceData" where
  "NewTraceData now =
     zero_TraceData\<lparr>Environment := ''development'', Version := ''1.0.0'',
       ServiceName := ''echo-server'', Region := ''local'', StartTime := now\<rparr>"

section \<open>The span execution helper (StartSpan)\<close>

text \<open>
  \<^verbatim>\<open>StartSpan(tracerCtx, operation, fn)\<close>. The work \<open>fn\<close> gets the new context and
  the new span, may call anything on any span, and returns an error (or nil) or panics.
  \<^verbatim>\<open>defer span.End()\<close> runs on both ways out, and a panic goes on to the caller.
\<close>

definition StartSpan ::
  "TraceContext \<Rightarrow> string \<Rightarrow>
   (context \<Rightarrow> span_id \<Rightarrow> trace_log \<Rightarrow> error option outcome \<times> trace_log) \<Rightarrow>
   trace_log \<Rightarrow> error option outcome \<times> trace_log" where
  "StartSpan tracerCtx operation fn log =
     (let tracer = Tracer tracerCtx;
          ctx = RequestCtx tracerCtx;
          (ctx, span, log) = tracer_Start tracer ctx operation [] log;
          (r, log) = fn ctx span log
      in (r, log @ [End span]))"

section \<open>Request identifiers (uuid.New().String())\<close>

text \<open>
  The identifier the middleware generates is \<^verbatim>\<open>uuid.New().String()\<close> of the package
  \<^verbatim>\<open>github.com/google/uuid\<close>. A \<^verbatim>\<open>UUID\<close> is an array of sixteen bytes.
  \<^verbatim>\<open>New\<close> fills it from the random reader, here the function from the position in
  the read to the byte delivered, and stamps the version and the variant:
  \<^verbatim>\<open>uuid[6] = (uuid[6] & 0x0f) | 0x40\<close> and \<^verbatim>\<open>uuid[8] = (uuid[8] & 0x3f) | 0x80\<close>.
  \<^verbatim>\<open>String\<close> writes the bytes in lower-case hexadecimal, \<^verbatim>\<open>uuid[:4]\<close>,
  \<^verbatim>\<open>uuid[4:6]\<close>, \<^verbatim>\<open>uuid[6:8]\<close>, \<^verbatim>\<open>uuid[8:10]\<close> and \<^verbatim>\<open>uuid[10:]\<close> with a
  hyphen between them; a byte \<open>v\<close> gives the digits of \<^verbatim>\<open>v >> 4\<close> and
  \<^verbatim>\<open>v & 0x0f\<close>, which are \<open>unat v div 16\<close> and \<open>unat v mod 16\<close>.
\<close>

type_synonym UUID = "8 word list"

definition hextable :: string where
  "hextable = ''0123456789abcdef''"

definition hex_byte :: "8 word \<Rightarrow> string" where
  "hex_byte v = [hextable ! (unat v div 16), hextable ! (unat v mod 16)]"

definition hex_Encode :: "8 word list \<Rightarrow> string" where
  "hex_Encode src = concat (map hex_byte src)"

definition uuid_New :: "(nat \<Rightarrow> 8 word) \<Rightarrow> UUID" where
  "uuid_New rand =
     (let uuid = map rand [0..<16];
          uuid = uuid[6 := (uuid ! 6 AND 0x0f) OR 0x40];
          uuid = uuid[8 := (uuid ! 8 AND 0x3f) OR 0x80]
      in uuid)"

definition uuid_String :: "UUID \<Rightarrow> string" where
  "uuid_String uuid =
     hex_Encode (take 4 uuid) @ ''-'' @
     hex_Encode (take 2 (drop 4 uuid)) @ ''-'' @
     hex_Encode (take 2 (drop 6 uuid)) @ ''-'' @
     hex_Encode (take 2 (drop 8 uuid)) @ ''-'' @
     hex_Encode (drop 10 uuid)"

section \<open>The request boundary middleware (OtelMiddleware)\<close>

text \<open>
  \<^verbatim>\<open>http.Header\<close>: a map from the canonical form of a field name to its values.
  \<^verbatim>\<open>Get\<close> and \<^verbatim>\<open>Set\<close> canonicalise the name they are given, and the server stores
  the fields of a request under their canonical names, so the maps of the model are keyed
  by canonical names and the names below are the canonical forms of the source's literals
  (\<^verbatim>\<open>"X-Request-ID"\<close> is \<^verbatim>\<open>X-Request-Id\<close>).
\<close>

type_synonym header = "string \<rightharpoonup> string list"

definition header_Get :: "header \<Rightarrow> string \<Rightarrow> string" where
  "header_Get h key = (case h key of None \<Rightarrow> [] | Some [] \<Rightarrow> [] | Some (v # vs) \<Rightarrow> v)"

definition header_Set :: "header \<Rightarrow> string \<Rightarrow> string \<Rightarrow> header" where
  "header_Set h key v = h(key \<mapsto> [v])"

definition X_Request_ID :: string where
  "X_Request_ID = ''X-Request-Id''"

definition HeaderContentType :: string where
  "HeaderContentType = ''Content-Type''"

record Request =
  req_Context :: "context"
  Header :: header
  Method :: string
  URL_Path :: string
  URL_Scheme :: string
  Host :: string
  Proto :: string
  ContentLength :: int

text \<open>\<^verbatim>\<open>req.UserAgent()\<close>.\<close>

definition Request_UserAgent :: "Request \<Rightarrow> string" where
  "Request_UserAgent req = header_Get (Request.Header req) ''User-Agent''"

record Response =
  Header :: header
  Status :: int
  Size :: int

text \<open>
  \<^verbatim>\<open>echo.Context\<close>: the request, the matched route (\<^verbatim>\<open>c.Path()\<close>), the client
  address (\<^verbatim>\<open>c.RealIP()\<close>), the response, and the store of \<^verbatim>\<open>c.Set\<close>. A handler
  works on the context and on spans, and returns an error (or nil) or panics.
\<close>

record echo_Context =
  Request :: Request
  Path :: string
  RealIP :: string
  Response :: Response
  store :: "string \<rightharpoonup> TraceContext"

type_synonym HandlerFunc =
  "echo_Context \<Rightarrow> trace_log \<Rightarrow> error option outcome \<times> echo_Context \<times> trace_log"

text \<open>
  What the middleware takes from outside the package: the process-wide propagator
  (\<^verbatim>\<open>otel.GetTextMapPropagator()\<close>), the bytes the random reader delivers to
  \<^verbatim>\<open>uuid.New()\<close> for this request, the value of \<^verbatim>\<open>time.Now()\<close>, and the constant
  \<^verbatim>\<open>TraceContextKey\<close> of constants.go.
\<close>

record env =
  propagator_Extract :: "context \<Rightarrow> header \<Rightarrow> context"
  rand_Reader :: "nat \<Rightarrow> 8 word"
  time_Now :: Time
  TraceContextKey :: string

text \<open>
  Lines 43-110: everything the middleware does before \<^verbatim>\<open>next(c)\<close>. The result is the
  context handed to the handler, the request span, the enrichment record and the log.
\<close>

definition middleware_enter ::
  "Config \<Rightarrow> env \<Rightarrow> echo_Context \<Rightarrow> trace_log \<Rightarrow> echo_Context \<times> span_id \<times> TraceData \<times> trace_log" where
  "middleware_enter config env c log =
     (let config = (if Config.ServiceName config = [] then config\<lparr>Config.ServiceName := ''default''\<rparr>
                    else config);
          tracer = Config.ServiceName config;
          req = Request c;
          ctx = req_Context req;
          ctx = propagator_Extract env ctx (Request.Header req);
          path = Path c;
          route = path;
          route = (if route = [] then ''HTTP '' @ Method req @ '' route not found'' else route);
          requestID = header_Get (Request.Header req) X_Request_ID;
          (requestID, c) =
            (if requestID = [] then
               (let requestID = uuid_String (uuid_New (rand_Reader env))
                in (requestID,
                    c\<lparr>Response := (Response c)\<lparr>Header :=
                        header_Set (Header (Response c)) X_Request_ID requestID\<rparr>\<rparr>))
             else (requestID, c));
          traceData = NewTraceData (time_Now env);
          traceData = traceData\<lparr>RequestID := requestID\<rparr>;
          traceData = traceData\<lparr>Action := Method req\<rparr>;
          traceData = traceData\<lparr>Resource := route\<rparr>;
          traceData = traceData\<lparr>TraceData.Environment := Config.Environment config\<rparr>;
          opts =
            [attribute_String ''http.method'' (Method req),
             attribute_String ''http.target'' (URL_Path req),
             attribute_String ''http.route'' route,
             attribute_String ''http.host'' (Host req),
             attribute_String ''http.scheme'' (URL_Scheme req),
             attribute_String ''http.flavor'' (Proto req),
             attribute_String ''http.client_ip'' (RealIP c),
             attribute_String ''http.user_agent'' (Request_UserAgent req),
             attribute_Int64 ''http.request_content_length'' (ContentLength req),
             attribute_String ''http.request_id'' requestID];
          spanName = route;
          spanName = (if spanName = [] then ''HTTP '' @ Method req else spanName);
          (ctx, span, log) = tracer_Start tracer ctx spanName opts log;
          log = AddTraceAttributes span traceData log;
          c = c\<lparr>Request := req\<lparr>req_Context := ctx\<rparr>\<rparr>;
          c = c\<lparr>store := (store c)(TraceContextKey env \<mapsto> \<lparr>Tracer = tracer, RequestCtx = ctx\<rparr>)\<rparr>
      in (c, span, traceData, log))"

text \<open>
  Lines 112-131 and the deferred \<^verbatim>\<open>span.End()\<close> of line 100: what the middleware does
  with the handler's outcome. The handler has worked on the same context object, so the
  response read here is the one it left. \<^verbatim>\<open>int(c.Response().Size)\<close> is the identity
  on a 64-bit platform.
\<close>

definition middleware_leave ::
  "span_id \<Rightarrow> TraceData \<Rightarrow> error option outcome \<times> echo_Context \<times> trace_log \<Rightarrow>
   error option outcome \<times> echo_Context \<times> trace_log" where
  "middleware_leave span traceData res =
     (case res of
        (Panicked v, c, log) \<Rightarrow> (Panicked v, c, log @ [End span])
      | (Returned (Some err), c, log) \<Rightarrow>
          (let traceData = traceData\<lparr>Error := Some err\<rparr>;
               traceData = traceData\<lparr>StatusCode := Status (Response c)\<rparr>;
               log = AddTraceAttributes span traceData log;
               log = log @ [RecordError span err]
           in (Returned (Some err), c, log @ [End span]))
      | (Returned None, c, log) \<Rightarrow>
          (let traceData = traceData\<lparr>StatusCode := Status (Response c)\<rparr>;
               log = AddTraceAttributes span traceData log;
               log = log @ [SetAttributes span
                      [attribute_Int ''http.response_content_length'' (Size (Response c)),
                       attribute_String ''http.response_content_type''
                         (header_Get (Header (Response c)) HeaderContentType)]]
           in (Returned None, c, log @ [End span])))"

text \<open>\<^verbatim>\<open>OtelMiddleware(config)(next)(c)\<close>.\<close>

definition OtelMiddleware ::
  "Config \<Rightarrow> env \<Rightarrow> HandlerFunc \<Rightarrow> echo_Context \<Rightarrow> trace_log \<Rightarrow>
   error option outcome \<times> echo_Context \<times> trace_log" where
  "OtelMiddleware config env next c log =
     (let (c, span, traceData, log) = middleware_enter config env c log
      in middleware_leave span traceData (next c log))"

section \<open>The provider initialisers (InitTracerHTTP, InitTracerGRPC)\<close>

text \<open>
  The options handed to the exporter and the attributes of the resource. The exporter,
  the sampler and the batcher belong to the SDK; the provider of the model is what the
  initialiser configures it with.
\<close>

datatype exporter_option =
    WithEndpoint string
  | WithURLPath string
  | WithHeaders "(string \<times> string) list"
  | WithInsecure

record TracerProvider =
  exporter_options :: "exporter_option list"
  resource_attributes :: "KeyValue list"

definition InitTracerHTTP :: "Config \<Rightarrow> TracerProvider" where
  "InitTracerHTTP config =
     (let httpEndpoint = ''127.0.0.1:5081'';
          httpEndpoint = (if Endpoint config \<noteq> [] then Endpoint config else httpEndpoint);
          path = ''/api/default/v1/traces'';
          streamName = ''default'';
          streamName = (if StreamName config \<noteq> [] then StreamName config else streamName);
          opts =
            [WithEndpoint httpEndpoint,
             WithURLPath path,
             WithHeaders [(''Authorization'', ''Basic '' @ BasicAuth config),
                          (''stream-name'', streamName)]];
          opts = (if \<not> IsSecure config then opts @ [WithInsecure] else opts)
      in \<lparr>exporter_options = opts,
          resource_attributes =
            [attribute_String ''service.name'' (Config.ServiceName config),
             attribute_String ''service.version'' ''0.0.1'',
             attribute_String ''environment'' (Config.Environment config)]\<rparr>)"

definition InitTracerGRPC :: "Config \<Rightarrow> TracerProvider" where
  "InitTracerGRPC config =
     (let gprcEndpoint = ''127.0.0.1:5081'';
          gprcEndpoint = (if Endpoint config \<noteq> [] then Endpoint config else gprcEndpoint);
          streamName = ''default'';
          streamName = (if StreamName config \<noteq> [] then StreamName config else streamName);
          opts =
            [WithEndpoint gprcEndpoint,
             WithHeaders [(''Authorization'', ''Basic '' @ BasicAuth config),
                          (''stream-name'', streamName)]];
          opts = (if \<not> IsSecure config then opts @ [WithInsecure] else opts)
      in \<lparr>exporter_options = opts,
          resource_attributes = [attribute_String ''service.name'' (Config.ServiceName config)]\<rparr>)"

text \<open>What an exporter is configured with: its endpoints and the values of one header.\<close>

fun option_endpoints :: "exporter_option list \<Rightarrow> string list" where
  "option_endpoints [] = []"
| "option_endpoints (WithEndpoint e # os) = e # option_endpoints os"
| "option_endpoints (opt # os) = option_endpoints os"

fun option_header :: "string \<Rightarrow> exporter_option list \<Rightarrow> string list" where
  "option_header k [] = []"
| "option_header k (WithHeaders hs # os) =
     map snd (filter (\<lambda>kv. fst kv = k) hs) @ option_header k os"
| "option_header k (opt # os) = option_header k os"

section \<open>The traced data-access wrapper (package mongo of the example)\<close>

text \<open>
  The driver's collection by what the wrapper reads of it
  (\<^verbatim>\<open>c.coll.Database().Name()\<close>, \<^verbatim>\<open>c.coll.Name()\<close>); the driver's operations are
  arguments of the wrapper's, since they run outside this repository. A driver call gets
  the context with the wrapper's span, may add to spans through the command monitor, and
  returns or panics.
\<close>

record mongo_Collection =
  Database_Name :: string
  Name :: string

record Collection =
  coll :: mongo_Collection
  tracer :: string

text \<open>\<^verbatim>\<open>*mongo.SingleResult\<close>: its error (\<^verbatim>\<open>result.Err()\<close>) and its document.\<close>

record 'd SingleResult =
  Err :: "error option"
  rdr :: 'd

definition startSpan :: "Collection \<Rightarrow> context \<Rightarrow> string \<Rightarrow> trace_log \<Rightarrow> context \<times> span_id \<times> trace_log" where
  "startSpan c ctx operation log =
     tracer_Start (tracer c) ctx (''MongoDB.'' @ operation)
       [attribute_String ''db.system'' ''mongodb'',
        attribute_String ''db.name'' (Database_Name (coll c)),
        attribute_String ''db.collection'' (Name (coll c)),
        attribute_String ''db.operation'' operation]
       log"

definition handleError :: "span_id \<Rightarrow> error option \<Rightarrow> trace_log \<Rightarrow> trace_log" where
  "handleError span err log =
     (case err of
        Some e \<Rightarrow>
          (let log = log @ [SetStatus span codes_Error (Error_string e)]
           in log @ [RecordError span e])
      | None \<Rightarrow> log @ [SetStatus span codes_Ok []])"

definition InsertOne ::
  "Collection \<Rightarrow>
   (context \<Rightarrow> 'doc \<Rightarrow> 'opts list \<Rightarrow> trace_log \<Rightarrow> ('res \<times> error option) outcome \<times> trace_log) \<Rightarrow>
   context \<Rightarrow> 'doc \<Rightarrow> 'opts list \<Rightarrow> trace_log \<Rightarrow> ('res \<times> error option) outcome \<times> trace_log" where
  "InsertOne c coll_InsertOne ctx document opts log =
     (let (ctx, span, log) = startSpan c ctx ''InsertOne'' log;
          (r, log) = coll_InsertOne ctx document opts log
      in case r of
           Panicked v \<Rightarrow> (Panicked v, log @ [End span])
         | Returned (result, err) \<Rightarrow>
             (let log = handleError span err log
              in (Returned (result, err), log @ [End span])))"

definition FindOne ::
  "Collection \<Rightarrow>
   (context \<Rightarrow> 'doc \<Rightarrow> 'opts list \<Rightarrow> trace_log \<Rightarrow> 'd SingleResult outcome \<times> trace_log) \<Rightarrow>
   context \<Rightarrow> 'doc \<Rightarrow> 'opts list \<Rightarrow> trace_log \<Rightarrow> 'd SingleResult outcome \<times> trace_log" where
  "FindOne c coll_FindOne ctx filter_doc opts log =
     (let (ctx, span, log) = startSpan c ctx ''FindOne'' log;
          (r, log) = coll_FindOne ctx filter_doc opts log
      in case r of
           Panicked v \<Rightarrow> (Panicked v, log @ [End span])
         | Returned result \<Rightarrow>
             (let log = handleError span (Err result) log
              in (Returned result, log @ [End span])))"

definition Find ::
  "Collection \<Rightarrow>
   (context \<Rightarrow> 'doc \<Rightarrow> 'opts list \<Rightarrow> trace_log \<Rightarrow> ('res \<times> error option) outcome \<times> trace_log) \<Rightarrow>
   context \<Rightarrow> 'doc \<Rightarrow> 'opts list \<Rightarrow> trace_log \<Rightarrow> ('res \<times> error option) outcome \<times> trace_log" where
  "Find c coll_Find ctx filter_doc opts log =
     (let (ctx, span, log) = startSpan c ctx ''Find'' log;
          (r, log) = coll_Find ctx filter_doc opts log
      in case r of
           Panicked v \<Rightarrow> (Panicked v, log @ [End span])
         | Returned (cursor, err) \<Rightarrow>
             (let log = handleError span err log
              in (Returned (cursor, err), log @ [End span])))"

definition UpdateOne ::
  "Collection \<Rightarrow>
   (context \<Rightarrow> 'doc \<Rightarrow> 'doc \<Rightarrow> 'opts list \<Rightarrow> trace_log \<Rightarrow> ('res \<times> error option) outcome \<times> trace_log) \<Rightarrow>
   context \<Rightarrow> 'doc \<Rightarrow> 'doc \<Rightarrow> 'opts list \<Rightarrow> trace_log \<Rightarrow> ('res \<times> error option) outcome \<times> trace_log" where
  "UpdateOne c coll_UpdateOne ctx filter_doc update opts log =
     (let (ctx, span, log) = startSpan c ctx ''UpdateOne'' log;
          (r, log) = coll_UpdateOne ctx filter_doc update opts log
      in case r of
           Panicked v \<Rightarrow> (Panicked v, log @ [End span])
         | Returned (result, err) \<Rightarrow>
             (let log = handleError span err log
              in (Returned (result, err), log @ [End span])))"

definition DeleteOne ::
  "Collection \<Rightarrow>
   (context \<Rightarrow> 'doc \<Rightarrow> 'opts list \<Rightarrow> trace_log \<Rightarrow> ('res \<times> error option) outcome \<times> trace_log) \<Rightarrow>
   context \<Rightarrow> 'doc \<Rightarrow> 'opts list \<Rightarrow> trace_log \<Rightarrow> ('res \<times> error option) outcome \<times> trace_log" where
  "DeleteOne c coll_DeleteOne ctx filter_doc opts log =
     (let (ctx, span, log) = startSpan c ctx ''DeleteOne'' log;
          (r, log) = coll_DeleteOne ctx filter_doc opts log
      in case r of
           Panicked v \<Rightarrow> (Panicked v, log @ [End span])
         | Returned (result, err) \<Rightarrow>
             (let log = handleError span err log
              in (Returned (result, err), log @ [End span])))"

section \<open>Example inputs\<close>

text \<open>
  Concrete inputs on which the theorems below are run. The configuration is the one of
  example/main.go, and the handlers follow the example's: the health check
  \<^verbatim>\<open>c.String(http.StatusOK, "Hello, World!")\<close>, which writes the content type, the status
  and thirteen bytes and returns nil; and a handler that returns an
  \<^verbatim>\<open>echo.NewHTTPError\<close> without writing a response, as \<^verbatim>\<open>ListUsers\<close> does when the
  store fails.
\<close>

definition example_Config :: Config where
  "example_Config =
     \<lparr>Config.ServiceName = ''echo-v4-server-demo-tracer'', Endpoint = ''....'', IsSecure = True,
      BasicAuth = ''....'', Config.Environment = ''development'', StreamName = ''default''\<rparr>"

definition no_propagation :: "context \<Rightarrow> header \<Rightarrow> context" where
  "no_propagation ctx h = ctx"

text \<open>
  Random bytes: the sixteen below, whose bytes 6 and 8 get the version and the variant
  stamped over them, and a reader that delivers zeros.
\<close>

definition example_rand :: "nat \<Rightarrow> 8 word" where
  "example_rand i =
     (if i < 16
      then [0x9b, 0x2c, 0x1c, 0x1e, 0x7d, 0x46, 0xfb, 0x0a,
            0x4f, 0x1a, 0x3c, 0x5d, 0x2e, 0x6f, 0x7a, 0x80] ! i
      else 0)"

definition zero_rand :: "nat \<Rightarrow> 8 word" where
  "zero_rand i = 0"

definition example_env :: env where
  "example_env =
     \<lparr>propagator_Extract = no_propagation,
      rand_Reader = example_rand,
      time_Now = \<lparr>IsZero = False, Format_RFC3339 = ''2024-05-01T10:00:00Z''\<rparr>,
      TraceContextKey = ''trace-context''\<rparr>"

definition example_Request :: Request where
  "example_Request =
     \<lparr>req_Context = NoSpan, Request.Header = Map.empty, Method = ''GET'', URL_Path = ''/users'',
      URL_Scheme = [], Host = ''localhost:8081'', Proto = ''HTTP/1.1'', ContentLength = 0\<rparr>"

definition example_Context :: echo_Context where
  "example_Context =
     \<lparr>Request = example_Request, Path = ''/users'', RealIP = ''127.0.0.1'',
      Response = \<lparr>Header = Map.empty, Status = 200, Size = 0\<rparr>, store = Map.empty\<rparr>"


definition hello_handler :: HandlerFunc where
  "hello_handler c log =
     (Returned None,
      c\<lparr>Response := (Response c)\<lparr>
          Header := (if header_Get (Header (Response c)) HeaderContentType = []
                     then header_Set (Header (Response c)) HeaderContentType ''text/plain; charset=UTF-8''
                     else Header (Response c)),
          Status := 200,
          Size := Size (Response c) + 13\<rparr>\<rparr>,
      log)"

definition failing_handler :: HandlerFunc where
  "failing_handler c log =
     (Returned (Some (errorString ''code=500, message=connection refused'')), c, log)"

text \<open>
  Work for \<^verbatim>\<open>StartSpan\<close>, after \<^verbatim>\<open>CreateUser\<close> of the example: it records an error
  on its span and returns an error; and work that panics.
\<close>

definition failing_work :: "context \<Rightarrow> span_id \<Rightarrow> trace_log \<Rightarrow> error option outcome \<times> trace_log" where
  "failing_work ctx span log =
     (Returned (Some (errorString ''code=400, message=bad request'')),
      log @ [RecordError span (errorString ''EOF'')])"

definition panicking_work :: "context \<Rightarrow> span_id \<Rightarrow> trace_log \<Rightarrow> error option outcome \<times> trace_log" where
  "panicking_work ctx span log = (Panicked ''runtime error: index out of range'', log)"

text \<open>A collection, and driver calls that fail, that succeed and that panic.\<close>

definition example_Collection :: Collection where
  "example_Collection = \<lparr>coll = \<lparr>Database_Name = ''userdb'', Name = ''users''\<rparr>, tracer = ''mongodb''\<rparr>"

definition failing_call ::
  "context \<Rightarrow> string \<Rightarrow> unit list \<Rightarrow> trace_log \<Rightarrow> (string \<times> error option) outcome \<times> trace_log" where
  "failing_call ctx document opts log = (Returned ([], Some (errorString ''write failed'')), log)"

definition succeeding_call ::
  "context \<Rightarrow> string \<Rightarrow> unit list \<Rightarrow> trace_log \<Rightarrow> (string \<times> error option) outcome \<times> trace_log" where
  "succeeding_call ctx document opts log = (Returned (''id-1'', None), log)"

definition failing_update ::
  "context \<Rightarrow> string \<Rightarrow> string \<Rightarrow> unit list \<Rightarrow> trace_log \<Rightarrow> (string \<times> error option) outcome \<times> trace_log" where
  "failing_update ctx filter_doc update opts log =
     (Returned ([], Some (errorString ''write failed'')), log)"

definition failing_find_one ::
  "context \<Rightarrow> string \<Rightarrow> unit list \<Rightarrow> trace_log \<Rightarrow> string SingleResult outcome \<times> trace_log" where
  "failing_find_one ctx filter_doc opts log =
     (Returned \<lparr>Err = Some (errorString ''mongo: no documents in result''), rdr = []\<rparr>, log)"

definition panicking_call ::
  "context \<Rightarrow> string \<Rightarrow> unit list \<Rightarrow> trace_log \<Rightarrow> (string \<times> error option) outcome \<times> trace_log" where
  "panicking_call ctx document opts log = (Panicked ''client is disconnected'', log)"

section \<open>Reading a log\<close>

lemma set_status_calls_append:
  "set_status_calls sp (xs @ ys) = set_status_calls sp xs @ set_status_calls sp ys"
  by (induction sp xs rule: set_status_calls.induct) simp_all

lemma set_attributes_calls_append:
  "set_attributes_calls sp (xs @ ys) = set_attributes_calls sp xs @ set_attributes_calls sp ys"
  by (induction sp xs rule: set_attributes_calls.induct) simp_all

lemma record_error_calls_append:
  "record_error_calls sp (xs @ ys) = record_error_calls sp xs @ record_error_calls sp ys"
  by (induction sp xs rule: record_error_calls.induct) simp_all

lemma end_calls_append:
  "end_calls sp (xs @ ys) = end_calls sp xs + end_calls sp ys"
  by (induction sp xs rule: end_calls.induct) simp_all

lemma attribute_values_append:
  "attribute_values k sp (xs @ ys) = attribute_values k sp xs @ attribute_values k sp ys"
  by (simp add: attribute_values_def set_attributes_calls_append)

lemma span_view_append:
  "span_view sp (xs @ ys) = fold (span_step sp) ys (span_view sp xs)"
  by (simp add: span_view_def)

text \<open>Writing attributes one by one is a map override, so writing them again changes nothing.\<close>

lemma put_attributes_map_add: "put_attributes kvs m = m ++ map_of (rev kvs)"
proof (induction kvs arbitrary: m)
  case Nil
  show ?case by simp
next
  case (Cons kv kvs)
  have "put_attributes (kv # kvs) m = m(fst kv \<mapsto> snd kv) ++ map_of (rev kvs)"
    by (simp only: put_attributes.simps Cons.IH)
  also have "\<dots> = m ++ map_of (rev (kv # kvs))"
    by (rule ext) (simp add: map_add_def split: option.split)
  finally show ?case .
qed

lemma put_attributes_twice: "put_attributes kvs (put_attributes kvs m) = put_attributes kvs m"
  unfolding put_attributes_map_add by (rule ext) (simp add: map_add_def split: option.split)

lemma put_status_twice: "put_status c d (put_status c d st) = put_status c d st"
  by (cases c; cases "fst st") (simp_all add: put_status_def)

lemma dom_span_step: "dom (st_attributes s) \<subseteq> dom (st_attributes (span_step sp e s))"
  by (cases e) (auto simp: put_attributes_map_add)

lemma dom_fold_span_step:
  "dom (st_attributes s) \<subseteq> dom (st_attributes (fold (span_step sp) evs s))"
proof (induction evs arbitrary: s)
  case Nil
  show ?case by simp
next
  case (Cons e evs)
  show ?case using dom_span_step [of s sp e] Cons.IH [of "span_step sp e s"] by auto
qed

section \<open>The enrichment record projected onto a span\<close>

lemma trace_attributes_unfold:
  "trace_attributes data =
     [(''user.id'', STRING (UserID data)),
      (''request.id'', STRING (RequestID data)),
      (''service.name'', STRING (TraceData.ServiceName data)),
      (''environment'', STRING (TraceData.Environment data)),
      (''version'', STRING (Version data)),
      (''region'', STRING (Region data)),
      (''action'', STRING (Action data)),
      (''resource'', STRING (Resource data)),
      (''status.code'', INT64 (StatusCode data)),
      (''client.ip'', STRING (ClientIP data)),
      (''user.agent'', STRING (UserAgent data)),
      (''request.size'', INT64 (RequestSize data)),
      (''response.size'', INT64 (ResponseSize data)),
      (''duration.ms'', FLOAT64 (Duration data))]
     @ (if IsZero (StartTime data) then []
        else [(''start_time'', STRING (Format_RFC3339 (StartTime data)))])
     @ (if IsZero (EndTime data) then []
        else [(''end_time'', STRING (Format_RFC3339 (EndTime data)))])
     @ (case Error data of None \<Rightarrow> []
        | Some err \<Rightarrow> [(''error.message'', STRING (Error_string err))])"
  by (simp add: trace_attributes_def Let_def attribute_String_def attribute_Int_def
      attribute_Int64_def attribute_Float64_def split: option.split)

text \<open>One call appends the same one or two events to whatever log it is given.\<close>

lemma AddTraceAttributes_append:
  "\<exists>evs. (\<forall>log. AddTraceAttributes span data log = log @ evs) \<and>
     (evs = [SetAttributes span (trace_attributes data)] \<or>
      (\<exists>c d. evs = [SetStatus span c d, SetAttributes span (trace_attributes data)]))"
  by (cases "Error data") (auto simp: AddTraceAttributes_def)

lemma set_status_calls_AddTraceAttributes:
  "set_status_calls sp (AddTraceAttributes span data log) =
     set_status_calls sp log @
     (if sp = span \<and> StatusCode data \<noteq> 0
      then [if StatusCode data = 200 then (codes_Ok, ''Success'')
            else (codes_Error,
                  case Error data of Some err \<Rightarrow> Error_string err | None \<Rightarrow> ''Unknown error'')]
      else [])"
  by (simp add: AddTraceAttributes_def http_StatusOK_def set_status_calls_append
        split: option.split)

lemma attribute_values_AddTraceAttributes:
  "attribute_values k sp (AddTraceAttributes span data log) =
     attribute_values k sp log @
     (if sp = span then map snd (filter (\<lambda>kv. fst kv = k) (trace_attributes data)) else [])"
  by (cases "Error data")
     (simp_all add: AddTraceAttributes_def attribute_values_def set_attributes_calls_append)

text \<open>
  C1. Status classification of \<^verbatim>\<open>AddTraceAttributes\<close>: with status code 200 the call
  \<^verbatim>\<open>SetStatus(codes.Ok, "Success")\<close> is made on the span; with a status code that is
  neither 0 nor 200 the call \<^verbatim>\<open>SetStatus(codes.Error, msg)\<close> is made, \<open>msg\<close> being the
  attached error's message, or \<^verbatim>\<open>"Unknown error"\<close> when no error is attached; with
  status code 0 no \<^verbatim>\<open>SetStatus\<close> call is made, whether or not an error is attached.
  In each case the only other call is the one \<^verbatim>\<open>SetAttributes\<close>.
\<close>

theorem AddTraceAttributes_status:
  "(StatusCode data = 200 \<longrightarrow>
      AddTraceAttributes span data log =
        log @ [SetStatus span codes_Ok ''Success'', SetAttributes span (trace_attributes data)])
   \<and> (StatusCode data \<noteq> 0 \<and> StatusCode data \<noteq> 200 \<longrightarrow>
      (\<forall>err. Error data = Some err \<longrightarrow>
         AddTraceAttributes span data log =
           log @ [SetStatus span codes_Error (Error_string err),
                  SetAttributes span (trace_attributes data)])
      \<and> (Error data = None \<longrightarrow>
         AddTraceAttributes span data log =
           log @ [SetStatus span codes_Error ''Unknown error'',
                  SetAttributes span (trace_attributes data)]))
   \<and> (StatusCode data = 0 \<longrightarrow>
      AddTraceAttributes span data log = log @ [SetAttributes span (trace_attributes data)]
      \<and> set_status_calls span (AddTraceAttributes span data log) = set_status_calls span log)"
  by (simp add: AddTraceAttributes_def http_StatusOK_def set_status_calls_append)

theorem AddTraceAttributes_status_witness:
  "set_status_calls 0 (AddTraceAttributes 0 (zero_TraceData\<lparr>StatusCode := 200\<rparr>) [])
     = [(codes_Ok, ''Success'')]
   \<and> set_status_calls 0 (AddTraceAttributes 0
        (zero_TraceData\<lparr>StatusCode := 404, Error := Some (errorString ''not found'')\<rparr>) [])
       = [(codes_Error, ''not found'')]
   \<and> set_status_calls 0 (AddTraceAttributes 0 (zero_TraceData\<lparr>StatusCode := 500\<rparr>) [])
       = [(codes_Error, ''Unknown error'')]
   \<and> set_status_calls 0 (AddTraceAttributes 0
        (zero_TraceData\<lparr>Error := Some (errorString ''not found'')\<rparr>) []) = []"
  using AddTraceAttributes_status [of "zero_TraceData\<lparr>StatusCode := 200\<rparr>" 0 "[]"]
    AddTraceAttributes_status
      [of "zero_TraceData\<lparr>StatusCode := 404, Error := Some (errorString ''not found'')\<rparr>" 0 "[]"]
    AddTraceAttributes_status [of "zero_TraceData\<lparr>StatusCode := 500\<rparr>" 0 "[]"]
    AddTraceAttributes_status
      [of "zero_TraceData\<lparr>Error := Some (errorString ''not found'')\<rparr>" 0 "[]"]
  by (simp add: zero_TraceData_def)

text \<open>
  C2, as the code has it. \<^verbatim>\<open>AddTraceAttributes\<close> commits, in its one
  \<^verbatim>\<open>SetAttributes\<close> call, the fourteen attributes \<^verbatim>\<open>user.id\<close> to \<^verbatim>\<open>duration.ms\<close>
  with the values of the record's fields whatever they are, empty strings and zeros
  included; \<^verbatim>\<open>start_time\<close> and \<^verbatim>\<open>end_time\<close> follow only for a time that is not the
  zero time, and \<^verbatim>\<open>error.message\<close> only for an error that is not nil. A status is set
  exactly when the status code is not zero.
\<close>

theorem AddTraceAttributes_emits:
  "set_attributes_calls span (AddTraceAttributes span data log) =
     set_attributes_calls span log @
     [(''user.id'', STRING (UserID data)),
      (''request.id'', STRING (RequestID data)),
      (''service.name'', STRING (TraceData.ServiceName data)),
      (''environment'', STRING (TraceData.Environment data)),
      (''version'', STRING (Version data)),
      (''region'', STRING (Region data)),
      (''action'', STRING (Action data)),
      (''resource'', STRING (Resource data)),
      (''status.code'', INT64 (StatusCode data)),
      (''client.ip'', STRING (ClientIP data)),
      (''user.agent'', STRING (UserAgent data)),
      (''request.size'', INT64 (RequestSize data)),
      (''response.size'', INT64 (ResponseSize data)),
      (''duration.ms'', FLOAT64 (Duration data))]
     @ (if IsZero (StartTime data) then []
        else [(''start_time'', STRING (Format_RFC3339 (StartTime data)))])
     @ (if IsZero (EndTime data) then []
        else [(''end_time'', STRING (Format_RFC3339 (EndTime data)))])
     @ (case Error data of None \<Rightarrow> []
        | Some err \<Rightarrow> [(''error.message'', STRING (Error_string err))])
   \<and> (set_status_calls span (AddTraceAttributes span data log) = set_status_calls span log)
       = (StatusCode data = 0)"
  by (simp add: AddTraceAttributes_def Let_def set_attributes_calls_append set_status_calls_append
        trace_attributes_unfold split: option.split)

text \<open>
  The claim C2 as the specification words it fails on the record with every field zero:
  all fourteen empty and zero attributes are committed.
\<close>

theorem zero_fields_emitted:
  "AddTraceAttributes 0 zero_TraceData [] =
     [SetAttributes 0
       [(''user.id'', STRING []), (''request.id'', STRING []), (''service.name'', STRING []),
        (''environment'', STRING []), (''version'', STRING []), (''region'', STRING []),
        (''action'', STRING []), (''resource'', STRING []), (''status.code'', INT64 0),
        (''client.ip'', STRING []), (''user.agent'', STRING []), (''request.size'', INT64 0),
        (''response.size'', INT64 0), (''duration.ms'', FLOAT64 0)]]"
  by (simp add: AddTraceAttributes_def trace_attributes_unfold zero_TraceData_def zero_Time_def)

text \<open>
  C7. \<^verbatim>\<open>AddTraceAttributes\<close> is a function of the span, the record and the calls made
  so far. Applying it a second time with the same record leaves every span in the state
  (attributes, status, recorded errors, ended or not) it had after the first application;
  and applying it with any record never removes an attribute: the keys a span had before
  are keys it has afterwards.
\<close>

theorem AddTraceAttributes_idempotent:
  "span_view sp (AddTraceAttributes span data (AddTraceAttributes span data log)) =
     span_view sp (AddTraceAttributes span data log)
   \<and> dom (st_attributes (span_view sp log))
       \<subseteq> dom (st_attributes (span_view sp (AddTraceAttributes span data' log)))"
proof
  obtain evs where evs: "\<And>l. AddTraceAttributes span data l = l @ evs"
    and shape: "evs = [SetAttributes span (trace_attributes data)] \<or>
      (\<exists>c d. evs = [SetStatus span c d, SetAttributes span (trace_attributes data)])"
    using AddTraceAttributes_append [of span data] by blast
  have twice: "fold (span_step sp) evs (fold (span_step sp) evs s) = fold (span_step sp) evs s" for s
    using shape by (auto simp: put_attributes_twice put_status_twice)
  show "span_view sp (AddTraceAttributes span data (AddTraceAttributes span data log)) =
     span_view sp (AddTraceAttributes span data log)"
    by (simp add: evs span_view_append twice del: append_assoc)
next
  obtain evs' where evs': "\<And>l. AddTraceAttributes span data' l = l @ evs'"
    using AddTraceAttributes_append [of span data'] by blast
  show "dom (st_attributes (span_view sp log))
       \<subseteq> dom (st_attributes (span_view sp (AddTraceAttributes span data' log)))"
    by (simp add: evs' span_view_append dom_fold_span_step)
qed

section \<open>The span execution helper\<close>

text \<open>
  C3. \<^verbatim>\<open>StartSpan\<close> starts one span, named by the operation and a child of the
  carrier's context, before the work runs; whatever way the work ends (it returns nil, it
  returns an error, it panics), \<^verbatim>\<open>StartSpan\<close> ends with what the work ended with,
  unchanged, and its only call on the span after the work is one \<^verbatim>\<open>End\<close>: it sets no
  status.
\<close>

theorem StartSpan_lifecycle:
  "(let sp = new_span_id log;
        started = log @ [Start sp (Tracer tracerCtx) operation (RequestCtx tracerCtx) []];
        work = fn (LocalSpan sp) sp started;
        res = StartSpan tracerCtx operation fn log
    in fst res = fst work
       \<and> snd res = snd work @ [End sp]
       \<and> end_calls sp (snd res) = Suc (end_calls sp (snd work))
       \<and> set_status_calls sp (snd res) = set_status_calls sp (snd work))"
  by (simp add: StartSpan_def tracer_Start_def Let_def end_calls_append set_status_calls_append
        split: prod.split)

theorem StartSpan_lifecycle_witness:
  "StartSpan \<lparr>Tracer = ''echo'', RequestCtx = LocalSpan 0\<rparr> ''CreateUser'' failing_work
     [Start 0 ''echo'' ''/users'' NoSpan []] =
     (Returned (Some (errorString ''code=400, message=bad request'')),
      [Start 0 ''echo'' ''/users'' NoSpan [],
       Start 1 ''echo'' ''CreateUser'' (LocalSpan 0) [],
       RecordError 1 (errorString ''EOF''),
       End 1])
   \<and> StartSpan \<lparr>Tracer = ''echo'', RequestCtx = LocalSpan 0\<rparr> ''CreateUser'' panicking_work
     [Start 0 ''echo'' ''/users'' NoSpan []] =
     (Panicked ''runtime error: index out of range'',
      [Start 0 ''echo'' ''/users'' NoSpan [],
       Start 1 ''echo'' ''CreateUser'' (LocalSpan 0) [],
       End 1])"
  using StartSpan_lifecycle [of "[Start 0 ''echo'' ''/users'' NoSpan []]"
          "\<lparr>Tracer = ''echo'', RequestCtx = LocalSpan 0\<rparr>" "''CreateUser''" failing_work]
        StartSpan_lifecycle [of "[Start 0 ''echo'' ''/users'' NoSpan []]"
          "\<lparr>Tracer = ''echo'', RequestCtx = LocalSpan 0\<rparr>" "''CreateUser''" panicking_work]
  by (simp add: Let_def new_span_id_def failing_work_def panicking_work_def prod_eq_iff)

section \<open>Generated request identifiers\<close>












lemma zero_uuid:
  "uuid_String (uuid_New zero_rand) = ''00000000-0000-4000-8000-000000000000''"
  by code_simp


section \<open>The request boundary middleware\<close>

lemma environment_of_trace_attributes:
  "map snd (filter (\<lambda>kv. fst kv = ''environment'') (trace_attributes data)) =
     [STRING (TraceData.Environment data)]"
  by (simp add: trace_attributes_unfold split: option.split)


lemma error_message_of_trace_attributes:
  "map snd (filter (\<lambda>kv. fst kv = ''error.message'') (trace_attributes data)) =
     (case Error data of None \<Rightarrow> [] | Some err \<Rightarrow> [STRING (Error_string err)])"
  by (simp add: trace_attributes_unfold split: option.split)

lemma status_code_of_trace_attributes:
  "map snd (filter (\<lambda>kv. fst kv = ''status.code'') (trace_attributes data)) =
     [INT64 (StatusCode data)]"
  by (simp add: trace_attributes_unfold split: option.split)

lemma response_keys_of_trace_attributes:
  "filter (\<lambda>kv. fst kv = ''http.response_content_length'') (trace_attributes data) = []"
  "filter (\<lambda>kv. fst kv = ''http.response_content_type'') (trace_attributes data) = []"
  by (simp_all add: trace_attributes_unfold split: option.split)

lemma middleware_enter_record:
  "middleware_enter config env c log = (c1, span, td, log1) \<Longrightarrow>
   td = (NewTraceData (time_Now env))\<lparr>
          RequestID := (if header_Get (Request.Header (Request c)) X_Request_ID = []
                        then uuid_String (uuid_New (rand_Reader env))
                        else header_Get (Request.Header (Request c)) X_Request_ID),
          Action := Method (Request c),
          Resource := (if Path c = [] then ''HTTP '' @ Method (Request c) @ '' route not found''
                       else Path c),
          TraceData.Environment := Config.Environment config\<rparr>"
  by (auto simp: middleware_enter_def Let_def tracer_Start_def split: if_splits)

lemma middleware_enter_log:
  "middleware_enter config env c log = (c1, span, td, log1) \<Longrightarrow>
   span = new_span_id log \<and>
   (\<exists>tr nm ctx opts. log1 = log @ [Start span tr nm ctx opts, SetAttributes span (trace_attributes td)])"
  by (auto simp: middleware_enter_def Let_def tracer_Start_def AddTraceAttributes_def
        NewTraceData_def zero_TraceData_def split: if_splits)


lemma middleware_enter_response:
  "middleware_enter config env c log = (c1, span, td, log1) \<Longrightarrow>
   Response c1 =
     (if header_Get (Request.Header (Request c)) X_Request_ID = []
      then (Response c)\<lparr>Header := header_Set (Header (Response c)) X_Request_ID
             (uuid_String (uuid_New (rand_Reader env)))\<rparr>
      else Response c)"
  by (auto simp: middleware_enter_def Let_def tracer_Start_def split: if_splits)

lemma OtelMiddleware_unfold:
  "middleware_enter config env c log = (c1, span, td, log1) \<Longrightarrow>
   OtelMiddleware config env next c log = middleware_leave span td (next c1 log1)"
  by (simp add: OtelMiddleware_def)

lemma middleware_leave_error:
  "middleware_leave span td (Returned (Some err), c, log) =
     (Returned (Some err), c,
      AddTraceAttributes span (td\<lparr>Error := Some err, StatusCode := Status (Response c)\<rparr>) log
        @ [RecordError span err, End span])"
  by (simp add: middleware_leave_def)

lemma middleware_leave_success:
  "middleware_leave span td (Returned None, c, log) =
     (Returned None, c,
      AddTraceAttributes span (td\<lparr>StatusCode := Status (Response c)\<rparr>) log
        @ [SetAttributes span
             [(''http.response_content_length'', INT64 (Size (Response c))),
              (''http.response_content_type'', STRING (header_Get (Header (Response c)) HeaderContentType))],
           End span])"
  by (simp add: middleware_leave_def attribute_Int_def attribute_String_def)

lemma middleware_leave_panic:
  "middleware_leave span td (Panicked v, c, log) = (Panicked v, c, log @ [End span])"
  by (simp add: middleware_leave_def)

lemma middleware_leave_passes:
  "fst (middleware_leave span td res) = fst res \<and>
   fst (snd (middleware_leave span td res)) = fst (snd res)"
proof -
  obtain r c log where res: "res = (r, c, log)" by (cases res) auto
  show ?thesis
  proof (cases r)
    case (Returned e)
    then show ?thesis
      by (cases e) (simp_all add: res middleware_leave_error middleware_leave_success)
  next
    case (Panicked v)
    then show ?thesis by (simp add: res middleware_leave_panic)
  qed
qed

lemma middleware_enter_proj:
  "middleware_enter config env c log =
     (fst (middleware_enter config env c log),
      new_span_id log,
      fst (snd (snd (middleware_enter config env c log))),
      snd (snd (snd (middleware_enter config env c log))))"
  by (simp add: middleware_enter_def Let_def tracer_Start_def split: prod.split)

text \<open>The example requests get the span 0 of an empty log.\<close>

lemma enter_example:
  "middleware_enter example_Config example_env example_Context [] =
     (fst (middleware_enter example_Config example_env example_Context []),
      0,
      fst (snd (snd (middleware_enter example_Config example_env example_Context []))),
      snd (snd (snd (middleware_enter example_Config example_env example_Context []))))"
  using middleware_enter_proj [of example_Config example_env example_Context "[]"]
  by (simp add: new_span_id_def)





text \<open>
  C5. The middleware ends the way the handler ended: the error the handler returned is the
  error the middleware returns, nil stays nil (and a panic stays that panic). When the
  handler returned an error, the middleware makes one \<^verbatim>\<open>RecordError\<close> call with that
  error on the request span, and commits its message as the attribute \<^verbatim>\<open>error.message\<close>.
\<close>

theorem middleware_error_passthrough:
  "middleware_enter config env c log = (c1, span, td, log1) \<Longrightarrow>
   fst (OtelMiddleware config env next c log) = fst (next c1 log1)
   \<and> (\<forall>err c2 log2. next c1 log1 = (Returned (Some err), c2, log2) \<longrightarrow>
        record_error_calls span (snd (snd (OtelMiddleware config env next c log)))
          = record_error_calls span log2 @ [err]
        \<and> attribute_values ''error.message'' span (snd (snd (OtelMiddleware config env next c log)))
          = attribute_values ''error.message'' span log2 @ [STRING (Error_string err)])"
proof -
  assume enter: "middleware_enter config env c log = (c1, span, td, log1)"
  have unfold: "OtelMiddleware config env next c log = middleware_leave span td (next c1 log1)"
    using enter by (rule OtelMiddleware_unfold)
  have pass: "fst (OtelMiddleware config env next c log) = fst (next c1 log1)"
    by (simp add: unfold middleware_leave_passes)
  have rec: "record_error_calls span (snd (snd (OtelMiddleware config env next c log)))
          = record_error_calls span log2 @ [err]
        \<and> attribute_values ''error.message'' span (snd (snd (OtelMiddleware config env next c log)))
          = attribute_values ''error.message'' span log2 @ [STRING (Error_string err)]"
    if "next c1 log1 = (Returned (Some err), c2, log2)" for err c2 log2
  proof -
    obtain evs where evs: "\<And>l. AddTraceAttributes span
        (td\<lparr>Error := Some err, StatusCode := Status (Response c2)\<rparr>) l = l @ evs"
      and shape: "evs = [SetAttributes span (trace_attributes (td\<lparr>Error := Some err, StatusCode := Status (Response c2)\<rparr>))] \<or>
        (\<exists>cd d. evs = [SetStatus span cd d, SetAttributes span (trace_attributes (td\<lparr>Error := Some err, StatusCode := Status (Response c2)\<rparr>))])"
      using AddTraceAttributes_append [of span "td\<lparr>Error := Some err, StatusCode := Status (Response c2)\<rparr>"]
      by blast
    have "record_error_calls span evs = []" using shape by auto
    then have r: "record_error_calls span (snd (snd (OtelMiddleware config env next c log)))
          = record_error_calls span log2 @ [err]"
      by (simp add: unfold that middleware_leave_error evs record_error_calls_append)
    have a: "attribute_values ''error.message'' span (snd (snd (OtelMiddleware config env next c log)))
          = attribute_values ''error.message'' span log2 @ [STRING (Error_string err)]"
      by (simp add: unfold that middleware_leave_error attribute_values_append
            attribute_values_AddTraceAttributes error_message_of_trace_attributes)
         (simp add: attribute_values_def)
    show ?thesis using r a by simp
  qed
  show ?thesis using pass rec by blast
qed

theorem middleware_error_passthrough_witness:
  "fst (OtelMiddleware example_Config example_env failing_handler example_Context [])
     = Returned (Some (errorString ''code=500, message=connection refused''))
   \<and> record_error_calls 0
        (snd (snd (OtelMiddleware example_Config example_env failing_handler example_Context [])))
     = [errorString ''code=500, message=connection refused'']
   \<and> attribute_values ''error.message'' 0
        (snd (snd (OtelMiddleware example_Config example_env failing_handler example_Context [])))
     = [STRING ''code=500, message=connection refused'']
   \<and> fst (OtelMiddleware example_Config example_env hello_handler example_Context [])
     = Returned None"
proof -
  let ?E = "middleware_enter example_Config example_env example_Context []"
  have e: "?E = (fst ?E, 0, fst (snd (snd ?E)), snd (snd (snd ?E)))"
    by (rule enter_example)
  have td: "Error (fst (snd (snd ?E))) = None"
    using middleware_enter_record [OF e] by (simp add: NewTraceData_def zero_TraceData_def)
  obtain tr nm ctx opts where log1: "snd (snd (snd ?E)) =
      [Start 0 tr nm ctx opts, SetAttributes 0 (trace_attributes (fst (snd (snd ?E))))]"
    using middleware_enter_log [OF e] by auto
  have before: "record_error_calls 0 (snd (snd (snd ?E))) = []"
    "attribute_values ''error.message'' 0 (snd (snd (snd ?E))) = []"
    by (simp_all add: log1 attribute_values_def error_message_of_trace_attributes td
          del: filter.simps)
  show ?thesis
    using middleware_error_passthrough [OF e, of failing_handler]
      middleware_error_passthrough [OF e, of hello_handler]
    by (simp add: failing_handler_def hello_handler_def before)
qed


text \<open>
  C8. The claim: after the handler returns, with an error or with success, the middleware
  puts the final response status code (and the error) into the record, applies the record
  to the request span, sets the response-content-length and response-content-type
  attributes, and closes the span. The code on the example request: when the handler
  returns the error of a 500 response without writing it, the middleware reads the status
  of the response before the framework's error handler has written it, so the record gets
  the status code 200 and the span the status Ok with \<^verbatim>\<open>"Success"\<close>; it then returns at
  line 118, and neither response attribute is set. The span is closed once. When the
  handler succeeds, both response attributes are set.
\<close>

theorem finalize_after_handler_error:
  "fst (OtelMiddleware example_Config example_env failing_handler example_Context [])
     = Returned (Some (errorString ''code=500, message=connection refused''))
   \<and> attribute_values ''status.code'' 0
     (snd (snd (OtelMiddleware example_Config example_env failing_handler example_Context [])))
     = [INT64 0, INT64 200]
   \<and> set_status_calls 0
     (snd (snd (OtelMiddleware example_Config example_env failing_handler example_Context [])))
     = [(codes_Ok, ''Success'')]
   \<and> attribute_values ''http.response_content_length'' 0
     (snd (snd (OtelMiddleware example_Config example_env failing_handler example_Context []))) = []
   \<and> attribute_values ''http.response_content_type'' 0
     (snd (snd (OtelMiddleware example_Config example_env failing_handler example_Context []))) = []
   \<and> end_calls 0
     (snd (snd (OtelMiddleware example_Config example_env failing_handler example_Context []))) = 1
   \<and> attribute_values ''http.response_content_length'' 0
     (snd (snd (OtelMiddleware example_Config example_env hello_handler example_Context [])))
     = [INT64 13]
   \<and> attribute_values ''http.response_content_type'' 0
     (snd (snd (OtelMiddleware example_Config example_env hello_handler example_Context [])))
     = [STRING ''text/plain; charset=UTF-8'']"
proof -
  let ?E = "middleware_enter example_Config example_env example_Context []"
  have e: "?E = (fst ?E, 0, fst (snd (snd ?E)), snd (snd (snd ?E)))"
    by (rule enter_example)
  have td: "StatusCode (fst (snd (snd ?E))) = 0"
    using middleware_enter_record [OF e] by (simp add: NewTraceData_def zero_TraceData_def)
  obtain tr nm ctx opts where log1: "snd (snd (snd ?E)) =
      [Start 0 tr nm ctx opts, SetAttributes 0 (trace_attributes (fst (snd (snd ?E))))]"
    using middleware_enter_log [OF e] by auto
  have response: "Response (fst ?E) =
      \<lparr>Header = [X_Request_ID \<mapsto> [uuid_String (uuid_New (rand_Reader example_env))]],
       Status = 200, Size = 0\<rparr>"
    using middleware_enter_response [OF e]
    by (simp add: example_Context_def example_Request_def header_Get_def header_Set_def)
  have resp: "Status (Response (fst ?E)) = 200" "Size (Response (fst ?E)) = 0"
    "header_Get (Header (Response (fst ?E))) HeaderContentType = []"
    by (simp_all add: response header_Get_def HeaderContentType_def X_Request_ID_def)
  have before: "attribute_values ''status.code'' 0 (snd (snd (snd ?E))) = [INT64 0]"
    "attribute_values ''http.response_content_length'' 0 (snd (snd (snd ?E))) = []"
    "attribute_values ''http.response_content_type'' 0 (snd (snd (snd ?E))) = []"
    "end_calls 0 (snd (snd (snd ?E))) = 0"
    "set_status_calls 0 (snd (snd (snd ?E))) = []"
    by (simp_all add: log1 attribute_values_def status_code_of_trace_attributes td
          response_keys_of_trace_attributes del: filter.simps)
  have ends: "end_calls 0 (AddTraceAttributes 0 d l) = end_calls 0 l" for d l
    using AddTraceAttributes_append [of 0 d] by (auto simp: end_calls_append)
  have failed: "OtelMiddleware example_Config example_env failing_handler example_Context [] =
      middleware_leave 0 (fst (snd (snd ?E))) (failing_handler (fst ?E) (snd (snd (snd ?E))))"
    using e by (rule OtelMiddleware_unfold)
  have served: "OtelMiddleware example_Config example_env hello_handler example_Context [] =
      middleware_leave 0 (fst (snd (snd ?E))) (hello_handler (fst ?E) (snd (snd (snd ?E))))"
    using e by (rule OtelMiddleware_unfold)
  have on_error:
    "fst (OtelMiddleware example_Config example_env failing_handler example_Context [])
       = Returned (Some (errorString ''code=500, message=connection refused''))"
    "attribute_values ''status.code'' 0
       (snd (snd (OtelMiddleware example_Config example_env failing_handler example_Context [])))
       = [INT64 0, INT64 200]"
    "set_status_calls 0
       (snd (snd (OtelMiddleware example_Config example_env failing_handler example_Context [])))
       = [(codes_Ok, ''Success'')]"
    "attribute_values ''http.response_content_length'' 0
       (snd (snd (OtelMiddleware example_Config example_env failing_handler example_Context []))) = []"
    "attribute_values ''http.response_content_type'' 0
       (snd (snd (OtelMiddleware example_Config example_env failing_handler example_Context []))) = []"
    "end_calls 0
       (snd (snd (OtelMiddleware example_Config example_env failing_handler example_Context []))) = 1"
    by (simp_all add: failed failing_handler_def middleware_leave_error attribute_values_append
          attribute_values_AddTraceAttributes status_code_of_trace_attributes
          response_keys_of_trace_attributes set_status_calls_append
          set_status_calls_AddTraceAttributes end_calls_append ends before resp
          del: filter.simps)
       (simp_all add: attribute_values_def)
  have on_success:
    "attribute_values ''http.response_content_length'' 0
       (snd (snd (OtelMiddleware example_Config example_env hello_handler example_Context [])))
       = [INT64 13]"
    "attribute_values ''http.response_content_type'' 0
       (snd (snd (OtelMiddleware example_Config example_env hello_handler example_Context [])))
       = [STRING ''text/plain; charset=UTF-8'']"
    by (simp_all add: served hello_handler_def middleware_leave_success attribute_values_append
          attribute_values_AddTraceAttributes response_keys_of_trace_attributes before response
          header_Get_def header_Set_def HeaderContentType_def X_Request_ID_def
          del: filter.simps)
       (simp_all add: attribute_values_def)
  show ?thesis using on_error on_success by simp
qed

text \<open>
  C10. \<^verbatim>\<open>NewTraceData\<close> fills the environment with \<^verbatim>\<open>"development"\<close>, and the
  middleware overwrites it with the configuration's environment whatever that is, the
  empty string included: the record it builds has the configuration's environment, and so
  has every \<^verbatim>\<open>environment\<close> attribute the middleware commits to the request span,
  before the handler and after it.
\<close>

theorem middleware_environment:
  "middleware_enter config env c log = (c1, span, td, log1) \<Longrightarrow>
   TraceData.Environment (NewTraceData (time_Now env)) = ''development''
   \<and> TraceData.Environment td = Config.Environment config
   \<and> attribute_values ''environment'' span log1
        = attribute_values ''environment'' span log @ [STRING (Config.Environment config)]
   \<and> (\<forall>r c2 log2. next c1 log1 = (Returned r, c2, log2) \<longrightarrow>
        attribute_values ''environment'' span (snd (snd (OtelMiddleware config env next c log)))
          = attribute_values ''environment'' span log2 @ [STRING (Config.Environment config)])"
proof -
  assume enter: "middleware_enter config env c log = (c1, span, td, log1)"
  have td: "TraceData.Environment td = Config.Environment config"
    using middleware_enter_record [OF enter] by simp
  obtain tr nm ctx opts where log1:
    "log1 = log @ [Start span tr nm ctx opts, SetAttributes span (trace_attributes td)]"
    using middleware_enter_log [OF enter] by auto
  have pre: "attribute_values ''environment'' span log1
        = attribute_values ''environment'' span log @ [STRING (Config.Environment config)]"
    by (simp add: log1 attribute_values_append)
       (simp add: attribute_values_def environment_of_trace_attributes td del: filter.simps)
  have post: "attribute_values ''environment'' span (snd (snd (OtelMiddleware config env next c log)))
          = attribute_values ''environment'' span log2 @ [STRING (Config.Environment config)]"
    if "next c1 log1 = (Returned r, c2, log2)" for r c2 log2
  proof (cases r)
    case None
    then show ?thesis
      by (simp add: OtelMiddleware_unfold [OF enter] that middleware_leave_success
            attribute_values_append attribute_values_AddTraceAttributes
            environment_of_trace_attributes td del: filter.simps)
         (simp add: attribute_values_def)
  next
    case (Some err)
    then show ?thesis
      by (simp add: OtelMiddleware_unfold [OF enter] that middleware_leave_error
            attribute_values_append attribute_values_AddTraceAttributes
            environment_of_trace_attributes td del: filter.simps)
         (simp add: attribute_values_def)
  qed
  have dflt: "TraceData.Environment (NewTraceData (time_Now env)) = ''development''"
    by (simp add: NewTraceData_def)
  show ?thesis using dflt td pre post by blast
qed

theorem middleware_environment_witness:
  "attribute_values ''environment'' 0
     (snd (snd (OtelMiddleware (example_Config\<lparr>Config.Environment := []\<rparr>) example_env
        hello_handler example_Context []))) = [STRING [], STRING []]
   \<and> attribute_values ''environment'' 0
     (snd (snd (OtelMiddleware (example_Config\<lparr>Config.Environment := []\<rparr>) example_env
        failing_handler example_Context []))) = [STRING [], STRING []]"
proof -
  let ?cfg = "example_Config\<lparr>Config.Environment := []\<rparr>"
  let ?E = "middleware_enter ?cfg example_env example_Context []"
  have e: "?E = (fst ?E, 0, fst (snd (snd ?E)), snd (snd (snd ?E)))"
    using middleware_enter_proj [of ?cfg example_env example_Context "[]"]
    by (simp add: new_span_id_def)
  show ?thesis
    using middleware_environment [OF e, of hello_handler]
      middleware_environment [OF e, of failing_handler]
    by (simp add: hello_handler_def failing_handler_def)
       (simp add: attribute_values_def)
qed


section \<open>The traced data-access wrapper\<close>

lemma startSpan_unfold:
  "startSpan c ctx operation log =
     (LocalSpan (new_span_id log), new_span_id log,
      log @ [Start (new_span_id log) (tracer c) (''MongoDB.'' @ operation) ctx
               [(''db.system'', STRING ''mongodb''),
                (''db.name'', STRING (Database_Name (coll c))),
                (''db.collection'', STRING (Name (coll c))),
                (''db.operation'', STRING operation)]])"
  by (simp add: startSpan_def tracer_Start_def attribute_String_def Let_def)

lemma handleError_unfold:
  "handleError span err log =
     log @ (case err of
              Some e \<Rightarrow> [SetStatus span codes_Error (Error_string e), RecordError span e]
            | None \<Rightarrow> [SetStatus span codes_Ok []])"
  by (simp add: handleError_def split: option.split)

text \<open>
  C6. \<^verbatim>\<open>startSpan\<close> starts one span named \<^verbatim>\<open>MongoDB.\<close> followed by the operation,
  with the four database attributes. Each of \<^verbatim>\<open>InsertOne\<close>, \<^verbatim>\<open>FindOne\<close>,
  \<^verbatim>\<open>Find\<close>, \<^verbatim>\<open>UpdateOne\<close> and \<^verbatim>\<open>DeleteOne\<close> starts that span for its own
  name, runs the driver's call in the span's context, and ends with what the driver's call
  ended with, unchanged. On the span it then sets status Error with the error's message and
  records the error when the driver returned an error, sets status Ok and records nothing
  when it returned none, and in every case, a panic of the driver included, ends the span
  once.
\<close>

theorem traced_store_operations:
  "startSpan c ctx operation log =
     (LocalSpan (new_span_id log), new_span_id log,
      log @ [Start (new_span_id log) (tracer c) (''MongoDB.'' @ operation) ctx
               [(''db.system'', STRING ''mongodb''),
                (''db.name'', STRING (Database_Name (coll c))),
                (''db.collection'', STRING (Name (coll c))),
                (''db.operation'', STRING operation)]])
   \<and> (\<forall>ctx1 sp log1 r log2.
        startSpan c ctx ''InsertOne'' log = (ctx1, sp, log1) \<and>
        coll_InsertOne ctx1 document opts_i log1 = (r, log2) \<longrightarrow>
        InsertOne c coll_InsertOne ctx document opts_i log =
          (r, log2 @ (case r of
               Returned (result, Some e) \<Rightarrow>
                 [SetStatus sp codes_Error (Error_string e), RecordError sp e, End sp]
             | Returned (result, None) \<Rightarrow> [SetStatus sp codes_Ok [], End sp]
             | Panicked v \<Rightarrow> [End sp])))
   \<and> (\<forall>ctx1 sp log1 r log2.
        startSpan c ctx ''FindOne'' log = (ctx1, sp, log1) \<and>
        coll_FindOne ctx1 filter_o opts_o log1 = (r, log2) \<longrightarrow>
        FindOne c coll_FindOne ctx filter_o opts_o log =
          (r, log2 @ (case r of
               Returned result \<Rightarrow>
                 (case Err result of
                    Some e \<Rightarrow> [SetStatus sp codes_Error (Error_string e), RecordError sp e, End sp]
                  | None \<Rightarrow> [SetStatus sp codes_Ok [], End sp])
             | Panicked v \<Rightarrow> [End sp])))
   \<and> (\<forall>ctx1 sp log1 r log2.
        startSpan c ctx ''Find'' log = (ctx1, sp, log1) \<and>
        coll_Find ctx1 filter_f opts_f log1 = (r, log2) \<longrightarrow>
        Find c coll_Find ctx filter_f opts_f log =
          (r, log2 @ (case r of
               Returned (result, Some e) \<Rightarrow>
                 [SetStatus sp codes_Error (Error_string e), RecordError sp e, End sp]
             | Returned (result, None) \<Rightarrow> [SetStatus sp codes_Ok [], End sp]
             | Panicked v \<Rightarrow> [End sp])))
   \<and> (\<forall>ctx1 sp log1 r log2.
        startSpan c ctx ''UpdateOne'' log = (ctx1, sp, log1) \<and>
        coll_UpdateOne ctx1 filter_u update opts_u log1 = (r, log2) \<longrightarrow>
        UpdateOne c coll_UpdateOne ctx filter_u update opts_u log =
          (r, log2 @ (case r of
               Returned (result, Some e) \<Rightarrow>
                 [SetStatus sp codes_Error (Error_string e), RecordError sp e, End sp]
             | Returned (result, None) \<Rightarrow> [SetStatus sp codes_Ok [], End sp]
             | Panicked v \<Rightarrow> [End sp])))
   \<and> (\<forall>ctx1 sp log1 r log2.
        startSpan c ctx ''DeleteOne'' log = (ctx1, sp, log1) \<and>
        coll_DeleteOne ctx1 filter_d opts_d log1 = (r, log2) \<longrightarrow>
        DeleteOne c coll_DeleteOne ctx filter_d opts_d log =
          (r, log2 @ (case r of
               Returned (result, Some e) \<Rightarrow>
                 [SetStatus sp codes_Error (Error_string e), RecordError sp e, End sp]
             | Returned (result, None) \<Rightarrow> [SetStatus sp codes_Ok [], End sp]
             | Panicked v \<Rightarrow> [End sp])))"
  by (simp add: startSpan_unfold InsertOne_def FindOne_def Find_def UpdateOne_def DeleteOne_def
        handleError_unfold split: option.split outcome.split)

theorem traced_store_operations_witness:
  "InsertOne example_Collection failing_call NoSpan ''{name: a}'' [] [] =
     (Returned ([], Some (errorString ''write failed'')),
      [Start 0 ''mongodb'' ''MongoDB.InsertOne'' NoSpan
         [(''db.system'', STRING ''mongodb''), (''db.name'', STRING ''userdb''),
          (''db.collection'', STRING ''users''), (''db.operation'', STRING ''InsertOne'')],
       SetStatus 0 codes_Error ''write failed'',
       RecordError 0 (errorString ''write failed''),
       End 0])
   \<and> InsertOne example_Collection succeeding_call NoSpan ''{name: a}'' [] [] =
     (Returned (''id-1'', None),
      [Start 0 ''mongodb'' ''MongoDB.InsertOne'' NoSpan
         [(''db.system'', STRING ''mongodb''), (''db.name'', STRING ''userdb''),
          (''db.collection'', STRING ''users''), (''db.operation'', STRING ''InsertOne'')],
       SetStatus 0 codes_Ok [],
       End 0])
   \<and> InsertOne example_Collection panicking_call NoSpan ''{name: a}'' [] [] =
     (Panicked ''client is disconnected'',
      [Start 0 ''mongodb'' ''MongoDB.InsertOne'' NoSpan
         [(''db.system'', STRING ''mongodb''), (''db.name'', STRING ''userdb''),
          (''db.collection'', STRING ''users''), (''db.operation'', STRING ''InsertOne'')],
       End 0])
   \<and> FindOne example_Collection failing_find_one NoSpan ''{}'' [] [] =
     (Returned \<lparr>Err = Some (errorString ''mongo: no documents in result''), rdr = []\<rparr>,
      [Start 0 ''mongodb'' ''MongoDB.FindOne'' NoSpan
         [(''db.system'', STRING ''mongodb''), (''db.name'', STRING ''userdb''),
          (''db.collection'', STRING ''users''), (''db.operation'', STRING ''FindOne'')],
       SetStatus 0 codes_Error ''mongo: no documents in result'',
       RecordError 0 (errorString ''mongo: no documents in result''),
       End 0])
   \<and> Find example_Collection succeeding_call NoSpan ''{}'' [] [] =
     (Returned (''id-1'', None),
      [Start 0 ''mongodb'' ''MongoDB.Find'' NoSpan
         [(''db.system'', STRING ''mongodb''), (''db.name'', STRING ''userdb''),
          (''db.collection'', STRING ''users''), (''db.operation'', STRING ''Find'')],
       SetStatus 0 codes_Ok [],
       End 0])
   \<and> UpdateOne example_Collection failing_update NoSpan ''{}'' ''{$set: {}}'' [] [] =
     (Returned ([], Some (errorString ''write failed'')),
      [Start 0 ''mongodb'' ''MongoDB.UpdateOne'' NoSpan
         [(''db.system'', STRING ''mongodb''), (''db.name'', STRING ''userdb''),
          (''db.collection'', STRING ''users''), (''db.operation'', STRING ''UpdateOne'')],
       SetStatus 0 codes_Error ''write failed'',
       RecordError 0 (errorString ''write failed''),
       End 0])
   \<and> DeleteOne example_Collection succeeding_call NoSpan ''{}'' [] [] =
     (Returned (''id-1'', None),
      [Start 0 ''mongodb'' ''MongoDB.DeleteOne'' NoSpan
         [(''db.system'', STRING ''mongodb''), (''db.name'', STRING ''userdb''),
          (''db.collection'', STRING ''users''), (''db.operation'', STRING ''DeleteOne'')],
       SetStatus 0 codes_Ok [],
       End 0])"
proof -
  have sp: "startSpan example_Collection NoSpan operation [] =
      (LocalSpan 0, 0,
       [Start 0 ''mongodb'' (''MongoDB.'' @ operation) NoSpan
          [(''db.system'', STRING ''mongodb''), (''db.name'', STRING ''userdb''),
           (''db.collection'', STRING ''users''), (''db.operation'', STRING operation)]])"
    for operation
    by (simp add: startSpan_unfold new_span_id_def example_Collection_def)
  note ops = traced_store_operations [of example_Collection NoSpan "''InsertOne''" "[]" _
          "''{name: a}''" "[]" failing_find_one "''{}''" "[]"
          succeeding_call "''{}''" "[]" failing_update "''{}''" "''{$set: {}}''" "[]"
          succeeding_call "''{}''" "[]", unfolded sp]
  show ?thesis
    using ops [of failing_call] ops [of succeeding_call] ops [of panicking_call]
    by (simp add: failing_call_def succeeding_call_def panicking_call_def failing_find_one_def
          failing_update_def)
qed

section \<open>The provider initialisers\<close>

text \<open>
  C9. Both initialisers configure the exporter with one endpoint, the configuration's, or
  \<^verbatim>\<open>"127.0.0.1:5081"\<close> when that is empty; and with one \<^verbatim>\<open>stream-name\<close> header, the
  configuration's stream name, or \<^verbatim>\<open>"default"\<close> when that is empty.
\<close>

theorem exporter_defaults:
  "option_endpoints (exporter_options (InitTracerHTTP config))
     = [if Endpoint config = [] then ''127.0.0.1:5081'' else Endpoint config]
   \<and> option_header ''stream-name'' (exporter_options (InitTracerHTTP config))
     = [if StreamName config = [] then ''default'' else StreamName config]
   \<and> option_endpoints (exporter_options (InitTracerGRPC config))
     = [if Endpoint config = [] then ''127.0.0.1:5081'' else Endpoint config]
   \<and> option_header ''stream-name'' (exporter_options (InitTracerGRPC config))
     = [if StreamName config = [] then ''default'' else StreamName config]"
  by (simp add: InitTracerHTTP_def InitTracerGRPC_def Let_def)

theorem exporter_defaults_witness:
  "option_endpoints (exporter_options (InitTracerHTTP (example_Config\<lparr>Endpoint := [], StreamName := []\<rparr>)))
     = [''127.0.0.1:5081'']
   \<and> option_header ''stream-name''
       (exporter_options (InitTracerGRPC (example_Config\<lparr>Endpoint := [], StreamName := []\<rparr>)))
     = [''default'']
   \<and> option_endpoints (exporter_options (InitTracerGRPC
        (example_Config\<lparr>Endpoint := ''localhost:4317'', StreamName := ''my-grpc-stream''\<rparr>)))
     = [''localhost:4317'']
   \<and> option_header ''stream-name'' (exporter_options (InitTracerHTTP
        (example_Config\<lparr>Endpoint := ''localhost:4318'', StreamName := ''my-stream''\<rparr>)))
     = [''my-stream'']"
  using exporter_defaults [of "example_Config\<lparr>Endpoint := [], StreamName := []\<rparr>"]
    exporter_defaults [of "example_Config\<lparr>Endpoint := ''localhost:4317'', StreamName := ''my-grpc-stream''\<rparr>"]
    exporter_defaults [of "example_Config\<lparr>Endpoint := ''localhost:4318'', StreamName := ''my-stream''\<rparr>"]
  by simp


end
